theory Spec2Isabelle
  imports Main "HOL-Library.Word" "HOL-Library.AList"
begin

section \<open>The I/O context of the rados binding (ioctx.go)\<close>

text \<open>
  Every method of \<open>IOContext\<close> marshals its arguments, issues one or more native calls
  of librados and turns the native status into a Go error. The native library is not part
  of the package: it is a parameter of the model, a record holding one function per native
  call, each acting on the state \<open>'s\<close> that lies outside the method (the cluster behind
  the context and the variables a callback captures).
\<close>

subsection \<open>Data\<close>

type_synonym byte = "8 word"
type_synonym uint64 = "64 word"

text \<open>\<open>type Snapshot C.rados_snap_t\<close>: a 64-bit identifier.\<close>

type_synonym Snapshot = "64 word"

text \<open>\<open>C.rados_list_ctx_t\<close>: an opaque handle of the native library.\<close>

type_synonym rados_list_ctx_t = nat

text \<open>
  A Go \<open>error\<close> is \<open>nil\<close> (\<open>None\<close>) or a \<open>RadosError\<close> holding the native status.
  Native statuses are C ints; they are carried as \<open>int\<close>, which every conversion
  \<open>int(ret)\<close> of the source preserves.
\<close>

datatype error = RadosError int

text \<open>
  A method either returns or panics. \<open>index_out_of_range\<close> is the run-time panic of
  \<open>&data[0]\<close> on a slice of length 0, \<open>callback_panic\<close> a panic raised inside the
  function handed to \<open>ListObjects\<close>, \<open>foreign_read_out_of_range\<close> the fault of
  \<open>C.GoStringN\<close> asked for more bytes than the buffer holds.
\<close>

datatype panic = index_out_of_range | callback_panic | foreign_read_out_of_range

type_synonym 'a go = "panic + 'a"

text \<open>
  What a method does to the outside, in order: its calls into librados and its calls of a
  callback, each with its arguments and, last, with what came back.
\<close>

datatype event =
    rados_write_call string "byte list" uint64 int
  | rados_read_call string nat uint64 "int \<times> byte list"
  | rados_remove_call string int
  | rados_trunc_call string uint64 int
  | rados_ioctx_get_pool_name_call "32 word" "int \<times> string"
  | rados_objects_list_open_call "int \<times> rados_list_ctx_t"
  | rados_objects_list_next_call rados_list_ctx_t "int \<times> string option"
  | rados_objects_list_close_call rados_list_ctx_t unit
  | rados_ioctx_selfmanaged_snap_create_call "int \<times> Snapshot"
  | listFn_call string "unit go"

text \<open>
  The native library. A call that fills a buffer returns what it wrote; a call with an
  out-parameter returns the value it stored there.
\<close>

record 's librados =
  rados_write :: "string \<Rightarrow> byte list \<Rightarrow> uint64 \<Rightarrow> 's \<Rightarrow> int \<times> 's"
  rados_read :: "string \<Rightarrow> nat \<Rightarrow> uint64 \<Rightarrow> 's \<Rightarrow> (int \<times> byte list) \<times> 's"
  rados_remove :: "string \<Rightarrow> 's \<Rightarrow> int \<times> 's"
  rados_trunc :: "string \<Rightarrow> uint64 \<Rightarrow> 's \<Rightarrow> int \<times> 's"
  rados_ioctx_get_pool_name :: "32 word \<Rightarrow> 's \<Rightarrow> (int \<times> string) \<times> 's"
  rados_objects_list_open :: "'s \<Rightarrow> (int \<times> rados_list_ctx_t) \<times> 's"
  rados_objects_list_next :: "rados_list_ctx_t \<Rightarrow> 's \<Rightarrow> (int \<times> string option) \<times> 's"
  rados_objects_list_close :: "rados_list_ctx_t \<Rightarrow> 's \<Rightarrow> unit \<times> 's"
  rados_ioctx_selfmanaged_snap_create :: "'s \<Rightarrow> (int \<times> Snapshot) \<times> 's"

text \<open>The state a method runs in: the outside, and the events issued so far.\<close>

record 's world =
  env :: 's
  calls :: "event list"

definition issue :: "('r \<Rightarrow> event) \<Rightarrow> ('s \<Rightarrow> 'r \<times> 's) \<Rightarrow> 's world \<Rightarrow> 'r \<times> 's world" where
  "issue c f w = (case f (env w) of (r, e) \<Rightarrow> (r, \<lparr>env = e, calls = calls w @ [c r]\<rparr>))"

subsection \<open>Marshalling\<close>

text \<open>\<open>C.CString\<close>: the callee reads the copy up to its first NUL byte.\<close>

definition CString :: "string \<Rightarrow> string" where
  "CString s = takeWhile (\<lambda>c. c \<noteq> CHR 0x00) s"

text \<open>\<open>C.GoString\<close> of a \<open>*C.char\<close>; the null pointer gives the empty string.\<close>

definition GoString :: "string option \<Rightarrow> string" where
  "GoString p = (case p of None \<Rightarrow> [] | Some s \<Rightarrow> s)"

text \<open>
  A buffer of \<open>n\<close> bytes after the callee wrote \<open>out\<close> at its start; \<open>blank\<close> is what
  the buffer held before.
\<close>

definition filled :: "'a list \<Rightarrow> 'a list \<Rightarrow> 'a list" where
  "filled blank out = take (length blank) out @ drop (length out) blank"

text \<open>\<open>C.GoStringN(&buf[0], ret)\<close>: the first \<open>ret\<close> bytes at the pointer.\<close>

definition GoStringN :: "string \<Rightarrow> int \<Rightarrow> string go" where
  "GoStringN buf ret =
     (if ret \<le> int (length buf) then Inr (take (nat ret) buf) else Inl foreign_read_out_of_range)"

subsection \<open>Write, Read, Delete, Truncate\<close>

definition Write :: "'s librados \<Rightarrow> string \<Rightarrow> byte list \<Rightarrow> uint64 \<Rightarrow> 's world \<Rightarrow>
    error option go \<times> 's world" where
  "Write be oid data offset w =
     (let c_oid = CString oid in
      if length data = 0 then (Inl index_out_of_range, w)
      else
        (case issue (rados_write_call c_oid data offset) (rados_write be c_oid data offset) w of
           (ret, w1) \<Rightarrow>
             if ret = 0 then (Inr None, w1)
             else (Inr (Some (RadosError ret)), w1)))"

text \<open>\<open>Read\<close> returns the count and the error; the third component is the caller's buffer
  after the call.\<close>

definition Read :: "'s librados \<Rightarrow> string \<Rightarrow> byte list \<Rightarrow> uint64 \<Rightarrow> 's world \<Rightarrow>
    (int \<times> error option) go \<times> byte list \<times> 's world" where
  "Read be oid data offset w =
     (if length data = 0 then (Inr (0, None), data, w)
      else
        (let c_oid = CString oid in
         case issue (rados_read_call c_oid (length data) offset)
                (rados_read be c_oid (length data) offset) w of
           ((ret, out), w1) \<Rightarrow>
             if ret \<ge> 0 then (Inr (ret, None), filled data out, w1)
             else (Inr (0, Some (RadosError ret)), filled data out, w1)))"

definition Delete :: "'s librados \<Rightarrow> string \<Rightarrow> 's world \<Rightarrow> error option go \<times> 's world" where
  "Delete be oid w =
     (let c_oid = CString oid in
      case issue (rados_remove_call c_oid) (rados_remove be c_oid) w of
        (ret, w1) \<Rightarrow>
          if ret = 0 then (Inr None, w1)
          else (Inr (Some (RadosError ret)), w1))"

definition Truncate :: "'s librados \<Rightarrow> string \<Rightarrow> uint64 \<Rightarrow> 's world \<Rightarrow>
    error option go \<times> 's world" where
  "Truncate be oid size' w =
     (let c_oid = CString oid in
      case issue (rados_trunc_call c_oid size') (rados_trunc be c_oid size') w of
        (ret, w1) \<Rightarrow>
          if ret = 0 then (Inr None, w1)
          else (Inr (Some (RadosError ret)), w1))"

subsection \<open>GetPoolName\<close>




subsection \<open>ListObjects\<close>

text \<open>
  \<open>ObjectListFunc\<close>: the callback returns nothing; it acts on the outside and may panic.
\<close>

type_synonym 's ObjectListFunc = "string \<Rightarrow> 's \<Rightarrow> unit go \<times> 's"

partial_function (option) ListObjects_loop :: "'s librados \<Rightarrow> 's ObjectListFunc \<Rightarrow>
    rados_list_ctx_t \<Rightarrow> 's world \<Rightarrow> (error option go \<times> 's world) option" where
  "ListObjects_loop be listFn ctx w =
     (case issue (rados_objects_list_next_call ctx) (rados_objects_list_next be ctx) w of
        ((ret, c_entry), w1) \<Rightarrow>
          if ret = - 2 then Some (Inr None, w1)
          else if ret < 0 then Some (Inr (Some (RadosError ret)), w1)
          else
            (case issue (listFn_call (GoString c_entry)) (listFn (GoString c_entry)) w1 of
               (Inl p, w2) \<Rightarrow> Some (Inl p, w2)
             | (Inr u, w2) \<Rightarrow> ListObjects_loop be listFn ctx w2))"

declare ListObjects_loop.simps [code]

text \<open>
  The deferred close is registered once the cursor is open, and runs when the loop is left,
  by a return or by a panic.
\<close>

definition ListObjects :: "'s librados \<Rightarrow> 's ObjectListFunc \<Rightarrow> 's world \<Rightarrow>
    (error option go \<times> 's world) option" where
  "ListObjects be listFn w =
     (case issue rados_objects_list_open_call (rados_objects_list_open be) w of
        ((ret, ctx), w1) \<Rightarrow>
          if ret < 0 then Some (Inr (Some (RadosError ret)), w1)
          else
            (case ListObjects_loop be listFn ctx w1 of
               None \<Rightarrow> None
             | Some (r, w2) \<Rightarrow>
                 Some (r, snd (issue (rados_objects_list_close_call ctx)
                                 (rados_objects_list_close be ctx) w2))))"

subsection \<open>CreateManagedSnapshot\<close>

text \<open>A \<open>*Snapshot\<close> is \<open>nil\<close> (\<open>None\<close>) or points to a snapshot identifier.\<close>

definition CreateManagedSnapshot :: "'s librados \<Rightarrow> 's world \<Rightarrow>
    (Snapshot option \<times> error option) go \<times> 's world" where
  "CreateManagedSnapshot be w =
     (case issue rados_ioctx_selfmanaged_snap_create_call
             (rados_ioctx_selfmanaged_snap_create be) w of
        ((ret, snap), w1) \<Rightarrow>
          if ret < 0 then (Inr (None, Some (RadosError ret)), w1)
          else (Inr (Some snap, None), w1))"

section \<open>Native libraries to run the methods on\<close>

subsection \<open>A library that answers every call with one status\<close>

definition answering :: "int \<Rightarrow> unit librados" where
  "answering r =
     \<lparr>rados_write = (\<lambda>oid data offset s. (r, s)),
      rados_read = (\<lambda>oid n offset s. ((r, []), s)),
      rados_remove = (\<lambda>oid s. (r, s)),
      rados_trunc = (\<lambda>oid size' s. (r, s)),
      rados_ioctx_get_pool_name = (\<lambda>n s. ((r, []), s)),
      rados_objects_list_open = (\<lambda>s. ((r, 0), s)),
      rados_objects_list_next = (\<lambda>ctx s. ((r, None), s)),
      rados_objects_list_close = (\<lambda>ctx s. ((), s)),
      rados_ioctx_selfmanaged_snap_create = (\<lambda>s. ((r, 0), s))\<rparr>"

definition fresh :: "'s \<Rightarrow> 's world" where
  "fresh s = \<lparr>env = s, calls = []\<rparr>"

subsection \<open>A simulated storage cluster\<close>

text \<open>
  Modelled from the spec: the storage cluster collaborator behind the native calls
  (librados and the cluster), which the package links against and does not contain. One
  pool, seen with no read snapshot selected: named objects holding bytes, the pool's name,
  the list cursors handed out (\<open>None\<close> once released) and the next snapshot identifier.
  A write overwrites the written range only and zero-fills a gap before it; a read returns
  up to the requested number of bytes from the offset and fails on an absent object; a
  truncation cuts or zero-fills; the pool name needs a buffer at least as long as the
  name, and the status \<open>-34\<close> asks for a larger one; a cursor yields every object name
  once and then the status \<open>-2\<close>.
\<close>

record store =
  objects :: "(string \<times> byte list) list"
  pool_name :: string
  cursors :: "string list option list"
  next_snap :: Snapshot

definition contents :: "store \<Rightarrow> string \<Rightarrow> byte list" where
  "contents s oid = (case map_of (objects s) oid of None \<Rightarrow> [] | Some bs \<Rightarrow> bs)"

definition overwrite :: "byte list \<Rightarrow> nat \<Rightarrow> byte list \<Rightarrow> byte list" where
  "overwrite old off data =
     take off (old @ replicate (off - length old) 0) @ data @ drop (off + length data) old"

definition sim_write :: "string \<Rightarrow> byte list \<Rightarrow> uint64 \<Rightarrow> store \<Rightarrow> int \<times> store" where
  "sim_write oid data offset s =
     (0, s\<lparr>objects := AList.update oid (overwrite (contents s oid) (unat offset) data) (objects s)\<rparr>)"

definition sim_read :: "string \<Rightarrow> nat \<Rightarrow> uint64 \<Rightarrow> store \<Rightarrow> (int \<times> byte list) \<times> store" where
  "sim_read oid n offset s =
     (case map_of (objects s) oid of
        None \<Rightarrow> ((- 2, []), s)
      | Some bs \<Rightarrow> ((int (length (take n (drop (unat offset) bs))), take n (drop (unat offset) bs)), s))"

definition sim_remove :: "string \<Rightarrow> store \<Rightarrow> int \<times> store" where
  "sim_remove oid s =
     (case map_of (objects s) oid of
        None \<Rightarrow> (- 2, s)
      | Some bs \<Rightarrow> (0, s\<lparr>objects := AList.delete oid (objects s)\<rparr>))"

definition sim_trunc :: "string \<Rightarrow> uint64 \<Rightarrow> store \<Rightarrow> int \<times> store" where
  "sim_trunc oid size' s =
     (0, s\<lparr>objects := AList.update oid
                 (take (unat size') (contents s oid @ replicate (unat size' - length (contents s oid)) 0))
                 (objects s)\<rparr>)"

definition sim_get_pool_name :: "32 word \<Rightarrow> store \<Rightarrow> (int \<times> string) \<times> store" where
  "sim_get_pool_name n s =
     (if unat n < length (pool_name s) then ((- 34, []), s)
      else ((int (length (pool_name s)), pool_name s), s))"

definition sim_list_open :: "store \<Rightarrow> (int \<times> rados_list_ctx_t) \<times> store" where
  "sim_list_open s =
     ((0, length (cursors s)), s\<lparr>cursors := cursors s @ [Some (map fst (objects s))]\<rparr>)"

definition sim_list_next :: "rados_list_ctx_t \<Rightarrow> store \<Rightarrow> (int \<times> string option) \<times> store" where
  "sim_list_next ctx s =
     (if ctx < length (cursors s) then
        (case cursors s ! ctx of
           None \<Rightarrow> ((- 22, None), s)
         | Some [] \<Rightarrow> ((- 2, None), s)
         | Some (name # rest) \<Rightarrow> ((0, Some name), s\<lparr>cursors := (cursors s)[ctx := Some rest]\<rparr>))
      else ((- 22, None), s))"

definition sim_list_close :: "rados_list_ctx_t \<Rightarrow> store \<Rightarrow> unit \<times> store" where
  "sim_list_close ctx s = ((), s\<lparr>cursors := (cursors s)[ctx := None]\<rparr>)"

definition sim_snap_create :: "store \<Rightarrow> (int \<times> Snapshot) \<times> store" where
  "sim_snap_create s = ((0, next_snap s), s\<lparr>next_snap := next_snap s + 1\<rparr>)"

definition sim_librados :: "store librados" where
  "sim_librados =
     \<lparr>rados_write = sim_write,
      rados_read = sim_read,
      rados_remove = sim_remove,
      rados_trunc = sim_trunc,
      rados_ioctx_get_pool_name = sim_get_pool_name,
      rados_objects_list_open = sim_list_open,
      rados_objects_list_next = sim_list_next,
      rados_objects_list_close = sim_list_close,
      rados_ioctx_selfmanaged_snap_create = sim_snap_create\<rparr>"

text \<open>A pool named \<open>rbd\<close> holding the objects \<open>a\<close> (bytes 1 2 3) and \<open>b\<close> (empty).\<close>

definition pool0 :: store where
  "pool0 = \<lparr>objects = [(''a'', [1, 2, 3]), (''b'', [])], pool_name = ''rbd'',
            cursors = [], next_snap = 7\<rparr>"


text \<open>A library whose cursor opens and then fails on the first fetch.\<close>

definition broken_cursor :: "store librados" where
  "broken_cursor = sim_librados\<lparr>rados_objects_list_next := (\<lambda>ctx s. ((- 5, None), s))\<rparr>"

text \<open>Callbacks: one that returns, one that panics.\<close>

definition quiet :: "'s ObjectListFunc" where
  "quiet name s = (Inr (), s)"

definition faulty :: "'s ObjectListFunc" where
  "faulty name s = (Inl callback_panic, s)"

section \<open>Reading the list of events\<close>



text \<open>
  The enumeration protocol in the words of the specification, as a property of the events
  between opening and releasing the cursor \<open>ctx\<close> and of the result \<open>r\<close>: every fetch
  is on \<open>ctx\<close>; a fetch with a negative status is the last event, and the result is \<open>nil\<close>
  for the status \<open>-2\<close> and the error holding the status otherwise; every other fetch is
  followed at once by one call of the visit function on the fetched name, and the next
  fetch comes only after that call has returned; a call that panics is the last event.
\<close>

fun enumeration :: "rados_list_ctx_t \<Rightarrow> event list \<Rightarrow> error option go \<Rightarrow> bool" where
  "enumeration ctx [] r = False"
| "enumeration ctx (ev # tr) r =
     (case ev of
        rados_objects_list_next_call c (ret, c_entry) \<Rightarrow>
          c = ctx \<and>
          (if ret < 0 then tr = [] \<and> r = Inr (if ret = - 2 then None else Some (RadosError ret))
           else
             (case tr of
                listFn_call name res # rest \<Rightarrow>
                  name = GoString c_entry \<and>
                  (case res of
                     Inl p \<Rightarrow> rest = [] \<and> r = Inl p
                   | Inr u \<Rightarrow> enumeration ctx rest r)
              | _ \<Rightarrow> False))
      | _ \<Rightarrow> False)"

fun fetched :: "event list \<Rightarrow> string list" where
  "fetched [] = []"
| "fetched (rados_objects_list_next_call c (ret, c_entry) # tr) =
     (if 0 \<le> ret then GoString c_entry # fetched tr else fetched tr)"
| "fetched (ev # tr) = fetched tr"

fun visited :: "event list \<Rightarrow> string list" where
  "visited [] = []"
| "visited (listFn_call name res # tr) = name # visited tr"
| "visited (ev # tr) = visited tr"

fun opened :: "event list \<Rightarrow> rados_list_ctx_t list" where
  "opened [] = []"
| "opened (rados_objects_list_open_call (ret, ctx) # tr) =
     (if 0 \<le> ret then ctx # opened tr else opened tr)"
| "opened (ev # tr) = opened tr"

fun released :: "event list \<Rightarrow> rados_list_ctx_t list" where
  "released [] = []"
| "released (rados_objects_list_close_call ctx u # tr) = ctx # released tr"
| "released (ev # tr) = released tr"

section \<open>Properties\<close>

subsection \<open>Facts about the model\<close>


lemma issue_calls: "issue c f w = (r, w1) \<Longrightarrow> calls w1 = calls w @ [c r]"
  by (auto simp: issue_def split: prod.splits)





lemma enumeration_cases:
  assumes "enumeration ctx tr r"
  obtains (last) ret c_entry where
      "tr = [rados_objects_list_next_call ctx (ret, c_entry)]" "ret < 0"
      "r = Inr (if ret = - 2 then None else Some (RadosError ret))"
  | (panic) ret c_entry p where
      "tr = [rados_objects_list_next_call ctx (ret, c_entry), listFn_call (GoString c_entry) (Inl p)]"
      "0 \<le> ret" "r = Inl p"
  | (more) ret c_entry u rest where
      "tr = rados_objects_list_next_call ctx (ret, c_entry) #
              listFn_call (GoString c_entry) (Inr u) # rest"
      "0 \<le> ret" "enumeration ctx rest r"
proof (cases tr)
  case Nil
  with assms show ?thesis by simp
next
  case (Cons ev tr')
  with assms obtain ret c_entry where ev: "ev = rados_objects_list_next_call ctx (ret, c_entry)"
    by (cases ev) (auto split: prod.splits)
  show ?thesis
  proof (cases "ret < 0")
    case True
    with assms Cons ev last show ?thesis by simp
  next
    case False
    with assms Cons ev obtain name res rest where
      tr': "tr' = listFn_call name res # rest" "name = GoString c_entry"
      by (auto split: list.splits event.splits)
    show ?thesis
    proof (cases res)
      case (Inl p)
      with assms Cons ev False tr' panic show ?thesis by simp
    next
      case (Inr u)
      with assms Cons ev False tr' more show ?thesis by simp
    qed
  qed
qed

lemma enumeration_facts:
  "enumeration ctx tr r \<Longrightarrow>
     visited tr = fetched tr \<and> opened tr = [] \<and> released tr = []"
proof (induction "length tr" arbitrary: tr rule: less_induct)
  case less
  from less.prems show ?case
  proof (cases rule: enumeration_cases)
    case (last ret c_entry)
    then show ?thesis by simp
  next
    case (panic ret c_entry p)
    then show ?thesis by simp
  next
    case (more ret c_entry u rest)
    with less.hyps [of rest] show ?thesis by simp
  qed
qed

lemma ListObjects_loop_trace:
  assumes run: "ListObjects_loop be listFn ctx w = Some y"
  shows "\<exists>body. calls (snd y) = calls w @ body \<and> enumeration ctx body (fst y)"
    (is "?P be listFn ctx w y")
proof (rule ListObjects_loop.raw_induct [where P = ?P, OF _ run])
  fix loop and be :: "'a librados" and listFn ctx w y
  assume IH: "\<And>be listFn ctx w y. loop be listFn ctx w = Some y \<Longrightarrow> ?P be listFn ctx w y"
    and eq: "(case issue (rados_objects_list_next_call ctx) (rados_objects_list_next be ctx) w of
        ((ret, c_entry), w1) \<Rightarrow>
          if ret = - 2 then Some (Inr None, w1)
          else if ret < 0 then Some (Inr (Some (RadosError ret)), w1)
          else
            (case issue (listFn_call (GoString c_entry)) (listFn (GoString c_entry)) w1 of
               (Inl p, w2) \<Rightarrow> Some (Inl p, w2)
             | (Inr u, w2) \<Rightarrow> loop be listFn ctx w2)) = Some y"
  obtain ret c_entry w1 where
    c: "issue (rados_objects_list_next_call ctx) (rados_objects_list_next be ctx) w
          = ((ret, c_entry), w1)"
    by (metis prod.exhaust)
  have w1: "calls w1 = calls w @ [rados_objects_list_next_call ctx (ret, c_entry)]"
    using issue_calls [OF c] .
  show "?P be listFn ctx w y"
  proof (cases "ret < 0")
    case True
    with eq c have "y = (Inr (if ret = - 2 then None else Some (RadosError ret)), w1)"
      by (auto split: if_splits)
    with True w1 show ?thesis by simp
  next
    case False
    obtain res w2 where
      v: "issue (listFn_call (GoString c_entry)) (listFn (GoString c_entry)) w1 = (res, w2)"
      by (metis prod.exhaust)
    have w2: "calls w2 = calls w @ [rados_objects_list_next_call ctx (ret, c_entry),
                listFn_call (GoString c_entry) res]"
      using issue_calls [OF v] w1 by simp
    show ?thesis
    proof (cases res)
      case (Inl p)
      with eq c v False have "y = (Inl p, w2)" by (auto split: if_splits)
      with False w2 Inl show ?thesis by simp
    next
      case (Inr u)
      with eq c v False have "loop be listFn ctx w2 = Some y" by (auto split: if_splits)
      from IH [OF this] obtain body where
        b: "calls (snd y) = calls w2 @ body" "enumeration ctx body (fst y)" by blast
      have "calls (snd y) = calls w @ (rados_objects_list_next_call ctx (ret, c_entry) #
                listFn_call (GoString c_entry) res # body)"
        using b(1) w2 by simp
      moreover have "enumeration ctx (rados_objects_list_next_call ctx (ret, c_entry) #
                listFn_call (GoString c_entry) res # body) (fst y)"
        using b(2) False Inr by simp
      ultimately show ?thesis by blast
    qed
  qed
qed


lemmas sim_defs = sim_librados_def sim_write_def sim_read_def sim_remove_def sim_trunc_def
  sim_get_pool_name_def sim_list_open_def sim_list_next_def sim_list_close_def
  sim_snap_create_def contents_def overwrite_def pool0_def fresh_def issue_def
  CString_def GoString_def GoStringN_def filled_def quiet_def faulty_def answering_def

lemma Write_result:
  assumes "data \<noteq> []" and "rados_write be (CString oid) data offset (env w) = (ret, e)"
  shows "Write be oid data offset w =
    (Inr (if ret = 0 then None else Some (RadosError ret)),
     \<lparr>env = e, calls = calls w @ [rados_write_call (CString oid) data offset ret]\<rparr>)"
  using assms by (simp add: Write_def issue_def Let_def)

lemma Delete_result:
  assumes "rados_remove be (CString oid) (env w) = (ret, e)"
  shows "Delete be oid w =
    (Inr (if ret = 0 then None else Some (RadosError ret)),
     \<lparr>env = e, calls = calls w @ [rados_remove_call (CString oid) ret]\<rparr>)"
  using assms by (simp add: Delete_def issue_def Let_def)

lemma Truncate_result:
  assumes "rados_trunc be (CString oid) size' (env w) = (ret, e)"
  shows "Truncate be oid size' w =
    (Inr (if ret = 0 then None else Some (RadosError ret)),
     \<lparr>env = e, calls = calls w @ [rados_trunc_call (CString oid) size' ret]\<rparr>)"
  using assms by (simp add: Truncate_def issue_def Let_def)

lemma Read_result:
  assumes "data \<noteq> []"
    and "rados_read be (CString oid) (length data) offset (env w) = ((ret, out), e)"
  shows "Read be oid data offset w =
    (Inr (if 0 \<le> ret then (ret, None) else (0, Some (RadosError ret))), filled data out,
     \<lparr>env = e, calls = calls w @
        [rados_read_call (CString oid) (length data) offset (ret, out)]\<rparr>)"
  using assms by (simp add: Read_def issue_def Let_def)

lemma overwrite_read_back:
  "take (length data) (drop off (overwrite old off data)) = data"
  by (simp add: overwrite_def)

lemma filled_whole: "length buf = length out \<Longrightarrow> filled buf out = out"
  by (simp add: filled_def)

text \<open>
  The binding hands the object id, the bytes, their number and the offset to the native
  library unchanged: whenever the native read returns what the native write stored, so does
  \<open>Read\<close> after \<open>Write\<close>. The simulated cluster is such a library.
\<close>

lemma Write_then_Read_through:
  assumes law: "\<And>c_oid s s'. rados_write be c_oid data offset s = (0, s') \<Longrightarrow>
      fst (rados_read be c_oid (length data) offset s') = (int (length data), data)"
    and wr: "Write be oid data offset w = (Inr None, w1)"
    and len: "length buf = length data"
  shows "\<exists>w2. Read be oid buf offset w1 = (Inr (int (length data), None), data, w2)"
proof -
  have ne: "data \<noteq> []"
    using wr by (auto simp: Write_def)
  obtain ret e where a: "rados_write be (CString oid) data offset (env w) = (ret, e)"
    by (metis prod.exhaust)
  from Write_result [OF ne a] wr have e: "env w1 = e" and ret: "ret = 0"
    by (auto split: if_splits)
  from law a ret e obtain e2 where
    rd: "rados_read be (CString oid) (length buf) offset (env w1) = ((int (length data), data), e2)"
    unfolding len by (metis prod.collapse)
  have nb: "buf \<noteq> []" using ne len by auto
  from Read_result [OF nb rd] show ?thesis
    by (simp add: filled_whole len)
qed

lemma sim_reads_back_writes:
  assumes "rados_write sim_librados c_oid data offset s = (0, s')"
  shows "fst (rados_read sim_librados c_oid (length data) offset s') = (int (length data), data)"
proof -
  from assms have "map_of (objects s') c_oid =
      Some (overwrite (contents s c_oid) (unat offset) data)"
    by (auto simp: sim_librados_def sim_write_def update_conv')
  then show ?thesis
    by (simp add: sim_librados_def sim_read_def overwrite_read_back)
qed

lemma ListObjects_open_failed:
  assumes "rados_objects_list_open be (env w) = ((ret, ctx), e)" and "ret < 0"
  shows "ListObjects be listFn w =
    Some (Inr (Some (RadosError ret)),
          \<lparr>env = e, calls = calls w @ [rados_objects_list_open_call (ret, ctx)]\<rparr>)"
  using assms by (simp add: ListObjects_def issue_def)

lemma ListObjects_opened:
  assumes op: "rados_objects_list_open be (env w) = ((ret, ctx), e)" and ok: "0 \<le> ret"
    and run: "ListObjects be listFn w = Some (r, w')"
  shows "\<exists>body. calls w' = calls w @ [rados_objects_list_open_call (ret, ctx)] @ body @
                    [rados_objects_list_close_call ctx ()] \<and> enumeration ctx body r"
proof -
  let ?w1 = "\<lparr>env = e, calls = calls w @ [rados_objects_list_open_call (ret, ctx)]\<rparr>"
  have i: "issue rados_objects_list_open_call (rados_objects_list_open be) w = ((ret, ctx), ?w1)"
    using op by (simp add: issue_def)
  from run i ok obtain w2 where
    loop: "ListObjects_loop be listFn ctx ?w1 = Some (r, w2)"
    and w': "w' = snd (issue (rados_objects_list_close_call ctx) (rados_objects_list_close be ctx) w2)"
    by (auto simp: ListObjects_def split: option.splits)
  from ListObjects_loop_trace [OF loop] obtain body where
    b: "calls w2 = calls ?w1 @ body" "enumeration ctx body r" by auto
  have "calls w' = calls w2 @ [rados_objects_list_close_call ctx ()]"
    using w' by (simp add: issue_def split: prod.splits)
  with b show ?thesis by auto
qed


subsection \<open>Object I/O\<close>

text \<open>
  C1. The claim is that \<open>Write\<close> with zero-length data succeeds as a no-op and never
  panics. The method does not: for every object id and every offset, taking the address of
  \<open>data[0]\<close> on an empty slice panics with an index out of range before any native call
  is issued, and the world is left as it was.
\<close>

theorem Write_empty_data_panics:
  "Write be oid [] offset w = (Inl index_out_of_range, w)"
  by (simp add: Write_def)

text \<open>
  C3. For every object id and every offset, \<open>Read\<close> with a buffer of length 0 returns
  \<open>(0, nil)\<close> at once: the buffer, the outside and the list of issued calls are as before,
  whatever the native library is.
\<close>

theorem Read_empty_buffer:
  "Read be oid [] offset w = (Inr (0, None), [], w)"
  by (simp add: Read_def)

text \<open>
  C2, as stated, fails. A native library that answers the status 1, which is
  non-negative, makes \<open>Write\<close>, \<open>Delete\<close> and \<open>Truncate\<close> return the error
  \<open>RadosError 1\<close> and not \<open>nil\<close>.
\<close>

theorem positive_status_counterexample:
  "fst (rados_write (answering 1) (CString ''obj'') [7] 0 ()) = 1 \<and>
   fst (Write (answering 1) ''obj'' [7] 0 (fresh ())) = Inr (Some (RadosError 1)) \<and>
   fst (Delete (answering 1) ''obj'' (fresh ())) = Inr (Some (RadosError 1)) \<and>
   fst (Truncate (answering 1) ''obj'' 4 (fresh ())) = Inr (Some (RadosError 1))"
  by (simp add: Write_def Delete_def Truncate_def sim_defs)

text \<open>
  C2, amended. \<open>Write\<close> (on data that is not empty), \<open>Delete\<close> and \<open>Truncate\<close>
  return \<open>nil\<close> exactly when the native status is zero, and \<open>RadosError\<close> of the status
  for every other status, the positive ones included.
\<close>

theorem zero_status_is_success:
  "(data \<noteq> [] \<longrightarrow>
      fst (Write be oid data offset w) =
        Inr (if fst (rados_write be (CString oid) data offset (env w)) = 0 then None
             else Some (RadosError (fst (rados_write be (CString oid) data offset (env w)))))) \<and>
   fst (Delete be oid w) =
     Inr (if fst (rados_remove be (CString oid) (env w)) = 0 then None
          else Some (RadosError (fst (rados_remove be (CString oid) (env w))))) \<and>
   fst (Truncate be oid size' w) =
     Inr (if fst (rados_trunc be (CString oid) size' (env w)) = 0 then None
          else Some (RadosError (fst (rados_trunc be (CString oid) size' (env w)))))"
proof -
  obtain a ea where a: "rados_write be (CString oid) data offset (env w) = (a, ea)"
    by (cases "rados_write be (CString oid) data offset (env w)")
  obtain b eb where b: "rados_remove be (CString oid) (env w) = (b, eb)"
    by (cases "rados_remove be (CString oid) (env w)")
  obtain c ec where c: "rados_trunc be (CString oid) size' (env w) = (c, ec)"
    by (cases "rados_trunc be (CString oid) size' (env w)")
  show ?thesis
    using Write_result [OF _ a] Delete_result [OF b] Truncate_result [OF c]
    by (simp add: a b c)
qed

theorem zero_status_is_success_witness:
  "fst (Write sim_librados ''a'' [9, 8] 2 (fresh pool0)) = Inr None \<and>
   fst (Delete sim_librados ''a'' (fresh pool0)) = Inr None \<and>
   fst (Delete sim_librados ''zz'' (fresh pool0)) = Inr (Some (RadosError (- 2))) \<and>
   fst (Truncate sim_librados ''a'' 1 (fresh pool0)) = Inr None \<and>
   fst (Write (answering 1) ''a'' [9, 8] 2 (fresh ())) = Inr (Some (RadosError 1))"
  using zero_status_is_success [of "[9, 8]" sim_librados "''a''" 2 "fresh pool0" 1]
    zero_status_is_success [of "[9, 8]" sim_librados "''zz''" 2 "fresh pool0" 1]
    zero_status_is_success [of "[9, 8]" "answering 1" "''a''" 2 "fresh ()" 1]
  by (simp add: sim_defs)

text \<open>
  C8. For every buffer that is not empty, \<open>Read\<close> returns the count reported by the
  native call and \<open>nil\<close> when the native status is non-negative, and the count 0 with
  \<open>RadosError\<close> of the status when it is negative. In the first run below the buffer has
  room for four bytes and the object ends after two: the count is 2.
\<close>

theorem Read_count_or_error:
  assumes "data \<noteq> []"
    and "fst (rados_read be (CString oid) (length data) offset (env w)) = (ret, out)"
  shows "(0 \<le> ret \<longrightarrow> fst (Read be oid data offset w) = Inr (ret, None)) \<and>
         (ret < 0 \<longrightarrow> fst (Read be oid data offset w) = Inr (0, Some (RadosError ret)))"
proof -
  obtain e where "rados_read be (CString oid) (length data) offset (env w) = ((ret, out), e)"
    using assms(2) by (cases "rados_read be (CString oid) (length data) offset (env w)") simp
  from Read_result [OF assms(1) this] show ?thesis by simp
qed

theorem Read_count_or_error_witness:
  "fst (Read sim_librados ''a'' [0, 0, 0, 0] 1 (fresh pool0)) = Inr (2, None) \<and>
   fst (Read sim_librados ''zz'' [0, 0, 0, 0] 1 (fresh pool0)) = Inr (0, Some (RadosError (- 2)))"
proof -
  have d: "[0, 0, 0, 0 :: byte] \<noteq> []" by simp
  have a: "fst (rados_read sim_librados (CString ''a'') (length [0, 0, 0, 0 :: byte]) 1
             (env (fresh pool0))) = (2, [2, 3])"
    by (simp add: sim_defs)
  have z: "fst (rados_read sim_librados (CString ''zz'') (length [0, 0, 0, 0 :: byte]) 1
             (env (fresh pool0))) = (- 2, [])"
    by (simp add: sim_defs)
  show ?thesis
    using Read_count_or_error [OF d a] Read_count_or_error [OF d z] by simp
qed

text \<open>
  C9. Whenever \<open>Read\<close> returns an error that is not \<open>nil\<close>, the count it returns is 0.
\<close>

theorem Read_error_has_zero_count:
  assumes "fst (Read be oid data offset w) = Inr (n, Some e)"
  shows "n = 0"
proof (cases "data = []")
  case True
  with assms show ?thesis by (simp add: Read_def)
next
  case False
  obtain ret out s where
    "rados_read be (CString oid) (length data) offset (env w) = ((ret, out), s)"
    by (metis prod.exhaust)
  from Read_result [OF False this] assms show ?thesis
    by (simp split: if_splits)
qed

theorem Read_error_has_zero_count_witness:
  "fst (Read sim_librados ''zz'' [0, 0, 0, 0] 1 (fresh pool0)) = Inr (0, Some (RadosError (- 2)))"
proof -
  obtain n e where h: "fst (Read sim_librados ''zz'' [0, 0, 0, 0] 1 (fresh pool0)) = Inr (n, Some e)"
      and e: "e = RadosError (- 2)"
    by (simp add: Read_def sim_defs Let_def)
  from Read_error_has_zero_count [OF h] h e show ?thesis by simp
qed

text \<open>
  C7. On the simulated cluster, for every object id, every byte sequence and every offset:
  when \<open>Write\<close> of the bytes at the offset has returned \<open>nil\<close>, a \<open>Read\<close> at the same
  offset into a buffer of the same length returns the length as its count, a \<open>nil\<close>
  error, and leaves exactly the written bytes in the buffer.
\<close>

theorem Write_then_Read_same_bytes:
  assumes wr: "Write sim_librados oid data offset w = (Inr None, w1)"
    and len: "length buf = length data"
  shows "\<exists>w2. Read sim_librados oid buf offset w1 = (Inr (int (length data), None), data, w2)"
  using sim_reads_back_writes wr len by (rule Write_then_Read_through)

theorem Write_then_Read_same_bytes_witness:
  "Write sim_librados ''a'' [9, 8] 5 (fresh pool0) =
     (Inr None,
      \<lparr>env = pool0\<lparr>objects := [(''a'', [1, 2, 3, 0, 0, 9, 8]), (''b'', [])]\<rparr>,
        calls = [rados_write_call ''a'' [9, 8] 5 0]\<rparr>) \<and>
   fst (Read sim_librados ''a'' [0, 0] 5
     \<lparr>env = pool0\<lparr>objects := [(''a'', [1, 2, 3, 0, 0, 9, 8]), (''b'', [])]\<rparr>,
        calls = [rados_write_call ''a'' [9, 8] 5 0]\<rparr>) = Inr (2, None) \<and>
   fst (snd (Read sim_librados ''a'' [0, 0] 5
     \<lparr>env = pool0\<lparr>objects := [(''a'', [1, 2, 3, 0, 0, 9, 8]), (''b'', [])]\<rparr>,
        calls = [rados_write_call ''a'' [9, 8] 5 0]\<rparr>)) = [9, 8]"
proof -
  have w: "Write sim_librados ''a'' [9, 8] 5 (fresh pool0) =
     (Inr None,
      \<lparr>env = pool0\<lparr>objects := [(''a'', [1, 2, 3, 0, 0, 9, 8]), (''b'', [])]\<rparr>,
        calls = [rados_write_call ''a'' [9, 8] 5 0]\<rparr>)"
    by code_simp
  have l: "length [0, 0 :: byte] = length [9, 8 :: byte]" by simp
  from Write_then_Read_same_bytes [OF w l] w show ?thesis by auto
qed

subsection \<open>Pool name\<close>



subsection \<open>Enumeration\<close>



text \<open>
  C6. Every run of \<open>ListObjects\<close> that has opened a cursor and leaves the method, whether
  it returns \<open>nil\<close>, returns an error or panics inside the visit function, has released that
  cursor as its last call, and has opened or released no other. A run whose open failed
  has issued that one call only.
\<close>

theorem ListObjects_releases_cursor:
  assumes run: "ListObjects be listFn w = Some (r, w')"
    and op: "fst (rados_objects_list_open be (env w)) = (ret, ctx)"
  shows "(0 \<le> ret \<longrightarrow>
            (\<exists>body. calls w' = calls w @ [rados_objects_list_open_call (ret, ctx)] @ body @
                                  [rados_objects_list_close_call ctx ()] \<and>
                     opened body = [] \<and> released body = [])) \<and>
         (ret < 0 \<longrightarrow> calls w' = calls w @ [rados_objects_list_open_call (ret, ctx)])"
proof -
  obtain e where o: "rados_objects_list_open be (env w) = ((ret, ctx), e)"
    using op by (cases "rados_objects_list_open be (env w)") simp
  have "ret < 0 \<longrightarrow> calls w' = calls w @ [rados_objects_list_open_call (ret, ctx)]"
    using ListObjects_open_failed [OF o, of listFn] run by auto
  moreover have "0 \<le> ret \<longrightarrow>
            (\<exists>body. calls w' = calls w @ [rados_objects_list_open_call (ret, ctx)] @ body @
                                  [rados_objects_list_close_call ctx ()] \<and>
                     opened body = [] \<and> released body = [])"
    using ListObjects_opened [OF o _ run] enumeration_facts by blast
  ultimately show ?thesis by blast
qed

theorem ListObjects_releases_cursor_witness:
  "ListObjects sim_librados faulty (fresh pool0) =
     Some (Inl callback_panic,
       \<lparr>env = pool0\<lparr>cursors := [None]\<rparr>,
          calls = [rados_objects_list_open_call (0, 0),
                   rados_objects_list_next_call 0 (0, Some ''a''),
                   listFn_call ''a'' (Inl callback_panic),
                   rados_objects_list_close_call 0 ()]\<rparr>) \<and>
   ListObjects broken_cursor faulty (fresh pool0) =
     Some (Inr (Some (RadosError (- 5))),
       \<lparr>env = pool0\<lparr>cursors := [None]\<rparr>,
          calls = [rados_objects_list_open_call (0, 0),
                   rados_objects_list_next_call 0 (- 5, None),
                   rados_objects_list_close_call 0 ()]\<rparr>) \<and>
   ListObjects sim_librados quiet (fresh (pool0\<lparr>objects := []\<rparr>)) =
     Some (Inr None,
       \<lparr>env = pool0\<lparr>objects := [], cursors := [None]\<rparr>,
          calls = [rados_objects_list_open_call (0, 0),
                   rados_objects_list_next_call 0 (- 2, None),
                   rados_objects_list_close_call 0 ()]\<rparr>)"
proof -
  have a: "fst (rados_objects_list_open sim_librados (env (fresh pool0))) = (0, 0)"
    by (simp add: sim_defs)
  have b: "fst (rados_objects_list_open broken_cursor (env (fresh pool0))) = (0, 0)"
    by (simp add: broken_cursor_def sim_defs)
  have c: "fst (rados_objects_list_open sim_librados (env (fresh (pool0\<lparr>objects := []\<rparr>))))
             = (0, 0)"
    by (simp add: sim_defs)
  have r1: "ListObjects sim_librados faulty (fresh pool0) =
     Some (Inl callback_panic,
       \<lparr>env = pool0\<lparr>cursors := [None]\<rparr>,
          calls = [rados_objects_list_open_call (0, 0),
                   rados_objects_list_next_call 0 (0, Some ''a''),
                   listFn_call ''a'' (Inl callback_panic),
                   rados_objects_list_close_call 0 ()]\<rparr>)"
    by code_simp
  have r2: "ListObjects broken_cursor faulty (fresh pool0) =
     Some (Inr (Some (RadosError (- 5))),
       \<lparr>env = pool0\<lparr>cursors := [None]\<rparr>,
          calls = [rados_objects_list_open_call (0, 0),
                   rados_objects_list_next_call 0 (- 5, None),
                   rados_objects_list_close_call 0 ()]\<rparr>)"
    by code_simp
  have r3: "ListObjects sim_librados quiet (fresh (pool0\<lparr>objects := []\<rparr>)) =
     Some (Inr None,
       \<lparr>env = pool0\<lparr>objects := [], cursors := [None]\<rparr>,
          calls = [rados_objects_list_open_call (0, 0),
                   rados_objects_list_next_call 0 (- 2, None),
                   rados_objects_list_close_call 0 ()]\<rparr>)"
    by code_simp
  show ?thesis
    using ListObjects_releases_cursor [OF r1 a] ListObjects_releases_cursor [OF r2 b]
      ListObjects_releases_cursor [OF r3 c]
    by - (intro conjI r1 r2 r3)
qed

subsection \<open>Self-managed snapshots\<close>

text \<open>
  C10. \<open>CreateManagedSnapshot\<close> always returns, and the pointer it returns is not \<open>nil\<close>
  if and only if the error is \<open>nil\<close>: on a negative native status the pointer is \<open>nil\<close>
  and the error is \<open>RadosError\<close> of the status; otherwise the pointer refers to the
  identifier the native call stored and the error is \<open>nil\<close>.
\<close>

theorem CreateManagedSnapshot_pointer_iff_no_error:
  assumes "fst (rados_ioctx_selfmanaged_snap_create be (env w)) = (ret, snap)"
  shows "\<exists>p e. fst (CreateManagedSnapshot be w) = Inr (p, e) \<and>
           ((p \<noteq> None) = (e = None)) \<and>
           (ret < 0 \<longrightarrow> p = None \<and> e = Some (RadosError ret)) \<and>
           (0 \<le> ret \<longrightarrow> p = Some snap \<and> e = None)"
proof -
  obtain e where "rados_ioctx_selfmanaged_snap_create be (env w) = ((ret, snap), e)"
    using assms by (cases "rados_ioctx_selfmanaged_snap_create be (env w)") simp
  then show ?thesis
    by (simp add: CreateManagedSnapshot_def issue_def)
qed

theorem CreateManagedSnapshot_pointer_iff_no_error_witness:
  "fst (CreateManagedSnapshot sim_librados (fresh pool0)) = Inr (Some 7, None) \<and>
   fst (CreateManagedSnapshot (answering (- 5)) (fresh ())) = Inr (None, Some (RadosError (- 5)))"
proof -
  have a: "fst (rados_ioctx_selfmanaged_snap_create sim_librados (env (fresh pool0))) = (0, 7)"
    by (simp add: sim_defs)
  have b: "fst (rados_ioctx_selfmanaged_snap_create (answering (- 5)) (env (fresh ()))) = (- 5, 0)"
    by (simp add: sim_defs)
  show ?thesis
    using CreateManagedSnapshot_pointer_iff_no_error [OF a]
      CreateManagedSnapshot_pointer_iff_no_error [OF b]
    by auto
qed

end
